theory Spec2Isabelle
  imports Complex_Main "HOL-Library.Sublist"
begin

section \<open>The capture record (datastore.js)\<close>

text \<open>
  The record kept by \<^verbatim>\<open>DataStore\<close> is a tree of JavaScript objects: the session holds an
  array of trial objects, a trial holds arrays of stroke, action and gaze objects, a stroke
  holds an array of point objects. Two fields of the store, \<^verbatim>\<open>_currentTrial\<close> and
  \<^verbatim>\<open>_currentStroke\<close>, are references to objects that are also elements of those arrays,
  and the operations mutate the objects through these references. The model therefore keeps
  trial and stroke objects in an explicit store: an object is allocated at the end of a list
  and is known by its index there (a \<open>ref\<close>); arrays of trials and strokes are lists of refs.
  Points, actions and gaze samples are never mutated after they are pushed and are kept as
  plain values. In every state the program can reach a ref held by the store or listed by a
  trial is allocated (\<open>wf\<close> below), so no operation reads the store out of range there.

  Numbers are JavaScript doubles. Clock readings, pointer coordinates, pressures and
  thicknesses are finite and are modelled as reals. A gaze estimate reaches the program
  unchecked from the estimator, so its coordinates are modelled as a \<open>jsnum\<close>: a finite
  number, an infinity or \<^verbatim>\<open>NaN\<close> (a coordinate that is \<^verbatim>\<open>undefined\<close> becomes \<^verbatim>\<open>NaN\<close> in
  the first arithmetic operation or \<^verbatim>\<open>Math.min\<close> it meets, and is modelled as \<open>NaN\<close>).
  Strings are strings.
\<close>

type_synonym ref = nat

datatype jsnum = Num real | PosInf | NegInf | NaN

record point =
  pt_x :: real
  pt_y :: real
  pt_pressure :: real
  pt_time :: real

record stroke =
  strokeId :: nat
  tool :: string
  color :: string
  thickness :: real
  stroke_startTime :: real
  stroke_endTime :: "real option"
  points :: "point list"

record action =
  act_type :: string
  act_time :: real

record gaze =
  gz_x :: jsnum
  gz_y :: jsnum
  gz_time :: real

text \<open>
  A trial object. The type parameter is the type of the elements of \<^verbatim>\<open>strokes\<close>: refs in
  the store, stroke values in the exported view.
\<close>

record 's trial =
  trialNumber :: nat
  trial_startTime :: real
  trial_endTime :: "real option"
  strokes :: "'s list"
  actions :: "action list"
  gazeData :: "gaze list"

text \<open>
  The state of a \<^verbatim>\<open>DataStore\<close>. \<open>clock\<close> and \<open>reads\<close> stand for the browser's
  \<^verbatim>\<open>performance.now()\<close>: \<open>clock k\<close> is the value of its \<open>k\<close>-th reading and \<open>reads\<close>
  counts the readings made so far. \<open>trials\<close> is \<^verbatim>\<open>sessionData.trials\<close>. The other fields
  of \<^verbatim>\<open>sessionData\<close> (participant id, screen and canvas sizes, user agent) are not touched
  by the operations below and are left out.
\<close>

record datastore =
  clock :: "nat \<Rightarrow> real"
  reads :: nat
  sessionStartPerf :: real
  trials :: "ref list"
  trialObjs :: "ref trial list"
  strokeObjs :: "stroke list"
  currentTrial :: "ref option"
  currentStroke :: "ref option"
  strokeCounter :: nat

text \<open>The constructor reads the clock once, for \<^verbatim>\<open>sessionStartPerf\<close>.\<close>

definition DataStore_new :: "(nat \<Rightarrow> real) \<Rightarrow> datastore" where
  "DataStore_new clk =
     \<lparr>clock = clk, reads = 1, sessionStartPerf = clk 0,
      trials = [], trialObjs = [], strokeObjs = [],
      currentTrial = None, currentStroke = None, strokeCounter = 0\<rparr>"

text \<open>\<^verbatim>\<open>now()\<close>: \<^verbatim>\<open>performance.now() - this.sessionStartPerf\<close>; it returns the value and the
  store with the reading consumed.\<close>

definition now :: "datastore \<Rightarrow> real \<times> datastore" where
  "now s = (clock s (reads s) - sessionStartPerf s, s\<lparr>reads := Suc (reads s)\<rparr>)"

text \<open>\<^verbatim>\<open>Math.round\<close> rounds to the nearest integer, a tie towards \<open>+\<infinity>\<close>.\<close>

definition js_round :: "real \<Rightarrow> real" where
  "js_round v = of_int \<lfloor>v + 1 / 2\<rfloor>"

text \<open>
  \<^verbatim>\<open>Math.min\<close> and \<^verbatim>\<open>Math.max\<close> of two numbers: \<^verbatim>\<open>NaN\<close> if either is \<^verbatim>\<open>NaN\<close>. And
  \<^verbatim>\<open>Math.round(x * 10) / 10\<close>, which keeps an infinity and \<^verbatim>\<open>NaN\<close> as they are.
\<close>

fun js_min :: "jsnum \<Rightarrow> jsnum \<Rightarrow> jsnum" where
  "js_min NaN b = NaN"
| "js_min a NaN = NaN"
| "js_min NegInf b = NegInf"
| "js_min a NegInf = NegInf"
| "js_min PosInf b = b"
| "js_min a PosInf = a"
| "js_min (Num a) (Num b) = Num (min a b)"

fun js_max :: "jsnum \<Rightarrow> jsnum \<Rightarrow> jsnum" where
  "js_max NaN b = NaN"
| "js_max a NaN = NaN"
| "js_max PosInf b = PosInf"
| "js_max a PosInf = PosInf"
| "js_max NegInf b = b"
| "js_max a NegInf = a"
| "js_max (Num a) (Num b) = Num (max a b)"

fun round_tenth :: "jsnum \<Rightarrow> jsnum" where
  "round_tenth (Num v) = Num (js_round (v * 10) / 10)"
| "round_tenth PosInf = PosInf"
| "round_tenth NegInf = NegInf"
| "round_tenth NaN = NaN"

definition startTrial :: "datastore \<Rightarrow> nat \<times> datastore" where
  "startTrial s =
     (let n = length (trials s) + 1;
          s1 = s\<lparr>strokeCounter := 0\<rparr>;
          (t, s2) = now s1;
          c = length (trialObjs s2);
          s3 = s2\<lparr>trialObjs := trialObjs s2 @
                      [\<lparr>trialNumber = n, trial_startTime = t, trial_endTime = None,
                        strokes = [], actions = [], gazeData = []\<rparr>],
                    currentTrial := Some c\<rparr>
      in (n, s3\<lparr>trials := trials s3 @ [c]\<rparr>))"

definition endStroke :: "datastore \<Rightarrow> datastore" where
  "endStroke s =
     (case currentStroke s of
        None \<Rightarrow> s
      | Some r \<Rightarrow>
          (let (t, s1) = now s;
               s2 = s1\<lparr>strokeObjs := (strokeObjs s1)
                          [r := (strokeObjs s1 ! r)\<lparr>stroke_endTime := Some t\<rparr>]\<rparr>
           in s2\<lparr>currentStroke := None\<rparr>))"

definition endTrial :: "datastore \<Rightarrow> datastore" where
  "endTrial s =
     (case currentTrial s of
        None \<Rightarrow> s
      | Some c \<Rightarrow>
          (let (t, s1) = now s;
               s2 = s1\<lparr>trialObjs := (trialObjs s1)
                          [c := (trialObjs s1 ! c)\<lparr>trial_endTime := Some t\<rparr>]\<rparr>;
               s3 = endStroke s2
           in s3\<lparr>currentTrial := None\<rparr>))"

definition isTrialActive :: "datastore \<Rightarrow> bool" where
  "isTrialActive s = (currentTrial s \<noteq> None)"

definition startStroke :: "string \<Rightarrow> string \<Rightarrow> real \<Rightarrow> datastore \<Rightarrow> datastore" where
  "startStroke tool' color' thickness' s =
     (case currentTrial s of
        None \<Rightarrow> s
      | Some c \<Rightarrow>
          (let i = strokeCounter s;
               s1 = s\<lparr>strokeCounter := i + 1\<rparr>;
               (t, s2) = now s1;
               r = length (strokeObjs s2);
               s3 = s2\<lparr>strokeObjs := strokeObjs s2 @
                           [\<lparr>strokeId = i, tool = tool', color = color', thickness = thickness',
                             stroke_startTime = t, stroke_endTime = None, points = []\<rparr>],
                         currentStroke := Some r\<rparr>
           in s3\<lparr>trialObjs := (trialObjs s3)
                    [c := (trialObjs s3 ! c)\<lparr>strokes := strokes (trialObjs s3 ! c) @ [r]\<rparr>]\<rparr>))"

text \<open>The third argument is optional in the source (\<^verbatim>\<open>pressure = 0.5\<close>).\<close>

definition addStrokePoint :: "real \<Rightarrow> real \<Rightarrow> real option \<Rightarrow> datastore \<Rightarrow> datastore" where
  "addStrokePoint px py pr s =
     (case currentStroke s of
        None \<Rightarrow> s
      | Some r \<Rightarrow>
          (let pressure = (case pr of None \<Rightarrow> 1 / 2 | Some v \<Rightarrow> v);
               (t, s1) = now s;
               p = \<lparr>pt_x = js_round (px * 100) / 100,
                    pt_y = js_round (py * 100) / 100,
                    pt_pressure = js_round (pressure * 1000) / 1000,
                    pt_time = t\<rparr>
           in s1\<lparr>strokeObjs := (strokeObjs s1)
                    [r := (strokeObjs s1 ! r)\<lparr>points := points (strokeObjs s1 ! r) @ [p]\<rparr>]\<rparr>))"

definition recordAction :: "string \<Rightarrow> datastore \<Rightarrow> datastore" where
  "recordAction actionType s =
     (case currentTrial s of
        None \<Rightarrow> s
      | Some c \<Rightarrow>
          (let (t, s1) = now s;
               a = \<lparr>act_type = actionType, act_time = t\<rparr>
           in s1\<lparr>trialObjs := (trialObjs s1)
                    [c := (trialObjs s1 ! c)\<lparr>actions := actions (trialObjs s1 ! c) @ [a]\<rparr>]\<rparr>))"

definition addGazePoint :: "jsnum \<Rightarrow> jsnum \<Rightarrow> datastore \<Rightarrow> datastore" where
  "addGazePoint gx gy s =
     (case currentTrial s of
        None \<Rightarrow> s
      | Some c \<Rightarrow>
          (let (t, s1) = now s;
               g = \<lparr>gz_x = round_tenth gx,
                    gz_y = round_tenth gy,
                    gz_time = t\<rparr>
           in s1\<lparr>trialObjs := (trialObjs s1)
                    [c := (trialObjs s1 ! c)\<lparr>gazeData := gazeData (trialObjs s1 ! c) @ [g]\<rparr>]\<rparr>))"

text \<open>
  \<^verbatim>\<open>getSessionData().trials\<close> as a value: every ref followed, as the JSON export and
  \<^verbatim>\<open>getSummary\<close> read it.
\<close>

definition deref_trial :: "datastore \<Rightarrow> ref trial \<Rightarrow> stroke trial" where
  "deref_trial s t =
     \<lparr>trialNumber = trialNumber t, trial_startTime = trial_startTime t,
      trial_endTime = trial_endTime t,
      strokes = map (\<lambda>r. strokeObjs s ! r) (strokes t),
      actions = actions t, gazeData = gazeData t\<rparr>"

definition sessionTrials :: "datastore \<Rightarrow> stroke trial list" where
  "sessionTrials s = map (\<lambda>c. deref_trial s (trialObjs s ! c)) (trials s)"

subsection \<open>Sequences of store operations\<close>

datatype store_op =
    StartTrial
  | EndTrial
  | StartStroke string string real
  | AddStrokePoint real real "real option"
  | EndStroke
  | RecordAction string
  | AddGazePoint jsnum jsnum

fun store_step :: "store_op \<Rightarrow> datastore \<Rightarrow> datastore" where
  "store_step StartTrial s = snd (startTrial s)"
| "store_step EndTrial s = endTrial s"
| "store_step (StartStroke tool' color' thickness') s = startStroke tool' color' thickness' s"
| "store_step (AddStrokePoint px py pr) s = addStrokePoint px py pr s"
| "store_step EndStroke s = endStroke s"
| "store_step (RecordAction a) s = recordAction a s"
| "store_step (AddGazePoint gx gy) s = addGazePoint gx gy s"

fun store_run :: "store_op list \<Rightarrow> datastore \<Rightarrow> datastore" where
  "store_run [] s = s"
| "store_run (x # xs) s = store_run xs (store_step x s)"

section \<open>The gaze callback (eyetracking.js)\<close>

text \<open>
  \<^verbatim>\<open>EyeTracker._onGaze\<close> clamps the estimate to the window with \<^verbatim>\<open>Math.max\<close> and
  \<^verbatim>\<open>Math.min\<close> and hands it to the store. Its caller tests only that the estimate object
  exists, not what its coordinates are. The window's \<^verbatim>\<open>innerWidth\<close> and \<^verbatim>\<open>innerHeight\<close>
  are whole numbers of CSS pixels, read when the callback runs. The gaze dot on the screen
  is not modelled.
\<close>

definition onGaze :: "nat \<Rightarrow> nat \<Rightarrow> jsnum \<Rightarrow> jsnum \<Rightarrow> datastore \<Rightarrow> datastore" where
  "onGaze innerWidth innerHeight gx gy s =
     (let gx' = js_max (Num 0) (js_min gx (Num (real innerWidth)));
          gy' = js_max (Num 0) (js_min gy (Num (real innerHeight)))
      in addGazePoint gx' gy' s)"

section \<open>The drawing engine (drawing.js)\<close>

text \<open>
  The engine's own state: the tool settings, the two flags, the stroke history used for
  replay and the buffer of the stroke being drawn. The pixels of the canvas are not
  modelled: the drawing calls on the 2D context change nothing else, \<^verbatim>\<open>_replayStrokes\<close>
  and \<^verbatim>\<open>exportPNG\<close> only paint or read pixels, and \<^verbatim>\<open>resize\<close> repaints after it has
  passed the canvas size to the store (a field of the session left out above).
\<close>

record hpoint =
  hp_x :: real
  hp_y :: real
  hp_pressure :: real

record hstroke =
  h_tool :: string
  h_color :: string
  h_thickness :: real
  h_points :: "hpoint list"

record engine =
  eng_tool :: string
  eng_color :: string
  eng_thickness :: real
  isDrawing :: bool
  enabled :: bool
  strokeHistory :: "hstroke list"
  currentPoints :: "hpoint list"

definition DrawingEngine_new :: engine where
  "DrawingEngine_new =
     \<lparr>eng_tool = ''pen'', eng_color = ''#1a1a2e'', eng_thickness = 4,
      isDrawing = False, enabled = False, strokeHistory = [], currentPoints = []\<rparr>"

text \<open>
  What a handler reads when a pointer event arrives: the fields of the event
  (\<^verbatim>\<open>pressure\<close> may be \<^verbatim>\<open>undefined\<close>) and the left and top of the canvas's bounding
  rectangle at that moment, which \<^verbatim>\<open>_getPointerPos\<close> subtracts.
\<close>

record pointer_event =
  clientX :: real
  clientY :: real
  ev_pressure :: "real option"
  isPrimary :: bool
  rectLeft :: real
  rectTop :: real

definition getPointerPos :: "pointer_event \<Rightarrow> hpoint" where
  "getPointerPos e =
     \<lparr>hp_x = clientX e - rectLeft e,
      hp_y = clientY e - rectTop e,
      hp_pressure = (case ev_pressure e of Some p \<Rightarrow> p | None \<Rightarrow> 1 / 2)\<rparr>"

definition addPoint :: "hpoint \<Rightarrow> engine \<Rightarrow> engine" where
  "addPoint pos g =
     g\<lparr>currentPoints := currentPoints g @
          [\<lparr>hp_x = hp_x pos, hp_y = hp_y pos, hp_pressure = hp_pressure pos\<rparr>]\<rparr>"

text \<open>The handlers work on the engine and on the store it holds a reference to.\<close>

definition onPointerDown :: "pointer_event \<Rightarrow> engine \<times> datastore \<Rightarrow> engine \<times> datastore" where
  "onPointerDown e = (\<lambda>(g, s).
     if \<not> enabled g then (g, s)
     else if \<not> isPrimary e then (g, s)
     else
       (let g1 = g\<lparr>isDrawing := True\<rparr>;
            pos = getPointerPos e;
            g2 = g1\<lparr>currentPoints := []\<rparr>;
            g3 = addPoint pos g2;
            s1 = startStroke (eng_tool g3) (eng_color g3) (eng_thickness g3) s;
            s2 = addStrokePoint (hp_x pos) (hp_y pos) (Some (hp_pressure pos)) s1
        in (g3, s2)))"

definition onPointerMove :: "pointer_event \<Rightarrow> engine \<times> datastore \<Rightarrow> engine \<times> datastore" where
  "onPointerMove e = (\<lambda>(g, s).
     if \<not> isDrawing g \<or> \<not> enabled g then (g, s)
     else if \<not> isPrimary e then (g, s)
     else
       (let pos = getPointerPos e;
            g1 = addPoint pos g;
            s1 = addStrokePoint (hp_x pos) (hp_y pos) (Some (hp_pressure pos)) s
        in (g1, s1)))"

text \<open>Bound to \<^verbatim>\<open>pointerup\<close>, \<^verbatim>\<open>pointercancel\<close> and \<^verbatim>\<open>pointerleave\<close>.\<close>

definition onPointerUp :: "pointer_event \<Rightarrow> engine \<times> datastore \<Rightarrow> engine \<times> datastore" where
  "onPointerUp e = (\<lambda>(g, s).
     if \<not> isDrawing g then (g, s)
     else
       (let g1 = g\<lparr>isDrawing := False\<rparr>;
            g2 = (if length (currentPoints g1) > 0
                  then g1\<lparr>strokeHistory := strokeHistory g1 @
                            [\<lparr>h_tool = eng_tool g1, h_color = eng_color g1,
                              h_thickness = eng_thickness g1,
                              h_points = currentPoints g1\<rparr>]\<rparr>
                  else g1);
            s1 = endStroke s
        in (g2\<lparr>currentPoints := []\<rparr>, s1)))"

definition setTool :: "string \<Rightarrow> engine \<Rightarrow> engine" where
  "setTool tool' g = g\<lparr>eng_tool := tool'\<rparr>"

definition setColor :: "string \<Rightarrow> engine \<Rightarrow> engine" where
  "setColor color' g = g\<lparr>eng_color := color', eng_tool := ''pen''\<rparr>"

definition setThickness :: "real \<Rightarrow> engine \<Rightarrow> engine" where
  "setThickness thickness' g = g\<lparr>eng_thickness := thickness'\<rparr>"

text \<open>\<^verbatim>\<open>pop()\<close> on the history is \<open>butlast\<close>; the replay only paints.\<close>

definition undo :: "engine \<times> datastore \<Rightarrow> engine \<times> datastore" where
  "undo = (\<lambda>(g, s).
     if length (strokeHistory g) = 0 then (g, s)
     else (g\<lparr>strokeHistory := butlast (strokeHistory g)\<rparr>, recordAction ''undo'' s))"

definition clearAll :: "engine \<times> datastore \<Rightarrow> engine \<times> datastore" where
  "clearAll = (\<lambda>(g, s). (g\<lparr>strokeHistory := []\<rparr>, recordAction ''clear'' s))"

definition enable :: "engine \<Rightarrow> engine" where
  "enable g = g\<lparr>enabled := True\<rparr>"

definition disable :: "engine \<Rightarrow> engine" where
  "disable g = g\<lparr>enabled := False, isDrawing := False\<rparr>"

definition reset :: "engine \<Rightarrow> engine" where
  "reset g = g\<lparr>strokeHistory := [], currentPoints := []\<rparr>"

section \<open>Sequences of application events\<close>

text \<open>
  What the page does to the engine and the store, one event at a time: the pointer handlers,
  the toolbar actions, the trial life cycle of \<^verbatim>\<open>app.js\<close> (which calls the engine and the
  store separately), the gaze callback, and any direct call of a store operation.
\<close>

datatype app_op =
    PointerDown pointer_event
  | PointerMove pointer_event
  | PointerUp pointer_event
  | Undo
  | ClearAll
  | Enable
  | Disable
  | Reset
  | SetTool string
  | SetColor string
  | SetThickness real
  | Gaze nat nat jsnum jsnum
  | Store store_op

fun app_step :: "app_op \<Rightarrow> engine \<times> datastore \<Rightarrow> engine \<times> datastore" where
  "app_step (PointerDown e) w = onPointerDown e w"
| "app_step (PointerMove e) w = onPointerMove e w"
| "app_step (PointerUp e) w = onPointerUp e w"
| "app_step Undo w = undo w"
| "app_step ClearAll w = clearAll w"
| "app_step Enable w = (enable (fst w), snd w)"
| "app_step Disable w = (disable (fst w), snd w)"
| "app_step Reset w = (reset (fst w), snd w)"
| "app_step (SetTool tool') w = (setTool tool' (fst w), snd w)"
| "app_step (SetColor color') w = (setColor color' (fst w), snd w)"
| "app_step (SetThickness thickness') w = (setThickness thickness' (fst w), snd w)"
| "app_step (Gaze innerWidth innerHeight gx gy) w = (fst w, onGaze innerWidth innerHeight gx gy (snd w))"
| "app_step (Store x) w = (fst w, store_step x (snd w))"

fun app_run :: "app_op list \<Rightarrow> engine \<times> datastore \<Rightarrow> engine \<times> datastore" where
  "app_run [] w = w"
| "app_run (x # xs) w = app_run xs (app_step x w)"

fun direct_startStroke :: "app_op \<Rightarrow> bool" where
  "direct_startStroke (Store (StartStroke tool' color' thickness')) = True"
| "direct_startStroke x = False"

subsection \<open>An example session\<close>

text \<open>
  A trial is started as \<^verbatim>\<open>onStartTrial\<close> does it, and one pen stroke of two points is drawn.
  The clock of the example returns \<open>0, 1, 2, \<dots>\<close>.
\<close>

definition example_session :: "app_op list" where
  "example_session =
     [Reset, Enable, Store StartTrial,
      PointerDown \<lparr>clientX = 10, clientY = 10, ev_pressure = Some (1 / 2), isPrimary = True, rectLeft = 0, rectTop = 0\<rparr>,
      PointerMove \<lparr>clientX = 20, clientY = 20, ev_pressure = Some (7 / 10), isPrimary = True, rectLeft = 0, rectTop = 0\<rparr>,
      PointerUp \<lparr>clientX = 20, clientY = 20, ev_pressure = Some 0, isPrimary = True, rectLeft = 0, rectTop = 0\<rparr>]"

definition example_state :: "engine \<times> datastore" where
  "example_state = app_run example_session (DrawingEngine_new, DataStore_new real)"

section \<open>Invariants and relations used in the proofs\<close>

text \<open>
  Well-formedness of a store: the trial array lists the trial objects in allocation order,
  the two current references point to allocated objects that are still open (no end time),
  a stroke is only current while a trial is, every stroke listed by a trial is allocated,
  and the current stroke is never listed by a trial that is already closed.
\<close>

definition wf :: "datastore \<Rightarrow> bool" where
  "wf s \<longleftrightarrow>
     trials s = [0..<length (trialObjs s)] \<and>
     (\<forall>c. currentTrial s = Some c \<longrightarrow>
            c < length (trialObjs s) \<and> trial_endTime (trialObjs s ! c) = None) \<and>
     (\<forall>r. currentStroke s = Some r \<longrightarrow>
            r < length (strokeObjs s) \<and> stroke_endTime (strokeObjs s ! r) = None \<and>
            currentTrial s \<noteq> None) \<and>
     (\<forall>c<length (trialObjs s). \<forall>r\<in>set (strokes (trialObjs s ! c)).
            r < length (strokeObjs s) \<and>
            (trial_endTime (trialObjs s ! c) \<noteq> None \<longrightarrow> currentStroke s \<noteq> Some r))"

text \<open>
  How a record may change: \<open>stroke_ext k k'\<close> says that \<open>k'\<close> is \<open>k\<close> with points added at
  the end and possibly its end time stamped, and is \<open>k\<close> itself once \<open>k\<close> has an end time;
  \<open>trial_ext\<close> says the same of a trial (actions, gaze samples and strokes are only appended,
  each stroke it had grows by \<open>stroke_ext\<close>, and a trial with an end time stays as it is);
  \<open>session_ext\<close> says it of the exported list of trials.
\<close>

definition stroke_ext :: "stroke \<Rightarrow> stroke \<Rightarrow> bool" where
  "stroke_ext k k' \<longleftrightarrow>
     strokeId k' = strokeId k \<and> tool k' = tool k \<and> color k' = color k \<and>
     thickness k' = thickness k \<and> stroke_startTime k' = stroke_startTime k \<and>
     prefix (points k) (points k') \<and>
     (stroke_endTime k \<noteq> None \<longrightarrow> k' = k)"

definition trial_ext :: "stroke trial \<Rightarrow> stroke trial \<Rightarrow> bool" where
  "trial_ext t t' \<longleftrightarrow>
     trialNumber t' = trialNumber t \<and> trial_startTime t' = trial_startTime t \<and>
     prefix (actions t) (actions t') \<and> prefix (gazeData t) (gazeData t') \<and>
     length (strokes t) \<le> length (strokes t') \<and>
     list_all2 stroke_ext (strokes t) (take (length (strokes t)) (strokes t')) \<and>
     (trial_endTime t \<noteq> None \<longrightarrow> t' = t)"

definition session_ext :: "stroke trial list \<Rightarrow> stroke trial list \<Rightarrow> bool" where
  "session_ext v v' \<longleftrightarrow>
     length v \<le> length v' \<and> list_all2 trial_ext v (take (length v) v')"

text \<open>The same on the store, before refs are followed.\<close>

definition grows :: "datastore \<Rightarrow> datastore \<Rightarrow> bool" where
  "grows s s' \<longleftrightarrow>
     length (trialObjs s) \<le> length (trialObjs s') \<and>
     (\<forall>r<length (strokeObjs s). stroke_ext (strokeObjs s ! r) (strokeObjs s' ! r)) \<and>
     (\<forall>c<length (trialObjs s).
        trialNumber (trialObjs s' ! c) = trialNumber (trialObjs s ! c) \<and>
        trial_startTime (trialObjs s' ! c) = trial_startTime (trialObjs s ! c) \<and>
        prefix (actions (trialObjs s ! c)) (actions (trialObjs s' ! c)) \<and>
        prefix (gazeData (trialObjs s ! c)) (gazeData (trialObjs s' ! c)) \<and>
        prefix (strokes (trialObjs s ! c)) (strokes (trialObjs s' ! c)) \<and>
        (trial_endTime (trialObjs s ! c) \<noteq> None \<longrightarrow>
           trialObjs s' ! c = trialObjs s ! c \<and>
           (\<forall>r\<in>set (strokes (trialObjs s ! c)). strokeObjs s' ! r = strokeObjs s ! r)))"


text \<open>
  Numbering: the trial allocated \<open>c\<close>-th has number \<open>c + 1\<close>, the \<open>i\<close>-th stroke of a
  trial has id \<open>i\<close>, and while a trial is current the stroke counter is the number of
  strokes it lists.
\<close>

definition ids_ok :: "datastore \<Rightarrow> bool" where
  "ids_ok s \<longleftrightarrow>
     (\<forall>c<length (trialObjs s).
        trialNumber (trialObjs s ! c) = Suc c \<and>
        (\<forall>i<length (strokes (trialObjs s ! c)).
           strokeId (strokeObjs s ! (strokes (trialObjs s ! c) ! i)) = i)) \<and>
     (\<forall>c. currentTrial s = Some c \<longrightarrow> strokeCounter s = length (strokes (trialObjs s ! c)))"

text \<open>
  Timestamps: the clock is monotone and the session start is its first reading; every
  recorded time is non-negative, the point times of a stroke are sorted and none exceeds a
  reading still to come.
\<close>

definition times_ok :: "datastore \<Rightarrow> bool" where
  "times_ok s \<longleftrightarrow>
     mono (clock s) \<and> sessionStartPerf s = clock s 0 \<and>
     (\<forall>r<length (strokeObjs s).
        0 \<le> stroke_startTime (strokeObjs s ! r) \<and>
        (\<forall>e. stroke_endTime (strokeObjs s ! r) = Some e \<longrightarrow> 0 \<le> e) \<and>
        sorted (map pt_time (points (strokeObjs s ! r))) \<and>
        (\<forall>p\<in>set (points (strokeObjs s ! r)).
           0 \<le> pt_time p \<and> (\<forall>n\<ge>reads s. pt_time p \<le> clock s n - clock s 0))) \<and>
     (\<forall>c<length (trialObjs s).
        0 \<le> trial_startTime (trialObjs s ! c) \<and>
        (\<forall>e. trial_endTime (trialObjs s ! c) = Some e \<longrightarrow> 0 \<le> e) \<and>
        (\<forall>a\<in>set (actions (trialObjs s ! c)). 0 \<le> act_time a) \<and>
        (\<forall>g\<in>set (gazeData (trialObjs s ! c)). 0 \<le> gz_time g))"

text \<open>No stroke object without points; no history entry without points.\<close>

definition nonempty_strokes :: "datastore \<Rightarrow> bool" where
  "nonempty_strokes s \<longleftrightarrow> (\<forall>r<length (strokeObjs s). points (strokeObjs s ! r) \<noteq> [])"

definition nonempty_history :: "engine \<Rightarrow> bool" where
  "nonempty_history g \<longleftrightarrow> (\<forall>h\<in>set (strokeHistory g). h_points h \<noteq> [])"

section \<open>The store only grows\<close>

lemmas store_defs = startTrial_def endTrial_def endStroke_def startStroke_def
  addStrokePoint_def recordAction_def addGazePoint_def now_def Let_def

subsection \<open>Well-formedness is kept by every operation\<close>

lemma wf_new: "wf (DataStore_new clk)"
  by (simp add: wf_def DataStore_new_def)

lemma wf_startTrial: "wf s \<Longrightarrow> wf (snd (startTrial s))"
  by (auto simp: wf_def store_defs nth_append split: option.splits)

lemma wf_endStroke: "wf s \<Longrightarrow> wf (endStroke s)"
  by (auto simp: wf_def store_defs nth_list_update split: option.splits)

lemma wf_endTrial: "wf s \<Longrightarrow> wf (endTrial s)"
  by (auto simp: wf_def store_defs nth_list_update split: option.splits)

lemma wf_startStroke: "wf s \<Longrightarrow> wf (startStroke a b c s)"
  by (auto simp: wf_def store_defs nth_list_update nth_append less_Suc_eq split: option.splits)

lemma wf_addStrokePoint: "wf s \<Longrightarrow> wf (addStrokePoint a b c s)"
  by (auto simp: wf_def store_defs nth_list_update split: option.splits)

lemma wf_recordAction: "wf s \<Longrightarrow> wf (recordAction a s)"
  by (auto simp: wf_def store_defs nth_list_update split: option.splits)

lemma wf_addGazePoint: "wf s \<Longrightarrow> wf (addGazePoint a b s)"
  by (auto simp: wf_def store_defs nth_list_update split: option.splits)

lemma wf_step: "wf s \<Longrightarrow> wf (store_step x s)"
  by (cases x) (simp_all add: wf_startTrial wf_endStroke wf_endTrial wf_startStroke
     wf_addStrokePoint wf_recordAction wf_addGazePoint)

lemma wf_run: "wf s \<Longrightarrow> wf (store_run xs s)"
  by (induction xs arbitrary: s) (simp_all add: wf_step)

subsection \<open>The extension relations are preorders\<close>

lemma all2_take_nth:
  "length xs \<le> length ys \<and> list_all2 P xs (take (length xs) ys) \<longleftrightarrow>
   length xs \<le> length ys \<and> (\<forall>i<length xs. P (xs ! i) (ys ! i))"
  by (auto simp: list_all2_conv_all_nth)

lemma stroke_ext_refl: "stroke_ext k k"
  by (simp add: stroke_ext_def)

lemma stroke_ext_trans: "stroke_ext a b \<Longrightarrow> stroke_ext b c \<Longrightarrow> stroke_ext a c"
  by (auto simp: stroke_ext_def)

lemma trial_ext_nth:
  "trial_ext t t' \<longleftrightarrow>
     trialNumber t' = trialNumber t \<and> trial_startTime t' = trial_startTime t \<and>
     prefix (actions t) (actions t') \<and> prefix (gazeData t) (gazeData t') \<and>
     length (strokes t) \<le> length (strokes t') \<and>
     (\<forall>i<length (strokes t). stroke_ext (strokes t ! i) (strokes t' ! i)) \<and>
     (trial_endTime t \<noteq> None \<longrightarrow> t' = t)"
  unfolding trial_ext_def using all2_take_nth[of "strokes t" "strokes t'" stroke_ext] by blast

lemma trial_ext_refl: "trial_ext t t"
  by (simp add: trial_ext_nth stroke_ext_refl)

lemma trial_ext_trans: "trial_ext a b \<Longrightarrow> trial_ext b c \<Longrightarrow> trial_ext a c"
  unfolding trial_ext_nth
  by (auto intro: stroke_ext_trans)

lemma session_ext_nth:
  "session_ext v v' \<longleftrightarrow> length v \<le> length v' \<and> (\<forall>i<length v. trial_ext (v ! i) (v' ! i))"
  unfolding session_ext_def using all2_take_nth[of v v' trial_ext] by blast

lemma session_ext_refl: "session_ext v v"
  by (simp add: session_ext_nth trial_ext_refl)

lemma session_ext_trans: "session_ext a b \<Longrightarrow> session_ext b c \<Longrightarrow> session_ext a c"
  unfolding session_ext_nth
  by (auto intro: trial_ext_trans)

subsection \<open>Every operation extends the record\<close>

lemma grows_startTrial: "wf s \<Longrightarrow> grows s (snd (startTrial s))"
  by (auto simp: grows_def wf_def store_defs nth_append stroke_ext_refl)

lemma grows_endStroke: "wf s \<Longrightarrow> grows s (endStroke s)"
  by (auto simp: grows_def wf_def store_defs nth_list_update stroke_ext_def split: option.splits)

lemma grows_endTrial: "wf s \<Longrightarrow> grows s (endTrial s)"
  by (auto simp: grows_def wf_def store_defs nth_list_update stroke_ext_def split: option.splits)

lemma grows_startStroke: "wf s \<Longrightarrow> grows s (startStroke a b c s)"
  by (auto simp: grows_def wf_def store_defs nth_list_update nth_append stroke_ext_refl split: option.splits)

lemma grows_addStrokePoint: "wf s \<Longrightarrow> grows s (addStrokePoint a b c s)"
  by (auto simp: grows_def wf_def store_defs nth_list_update stroke_ext_def split: option.splits)

lemma grows_recordAction: "wf s \<Longrightarrow> grows s (recordAction a s)"
  by (auto simp: grows_def wf_def store_defs nth_list_update stroke_ext_refl split: option.splits)

lemma grows_addGazePoint: "wf s \<Longrightarrow> grows s (addGazePoint a b s)"
  by (auto simp: grows_def wf_def store_defs nth_list_update stroke_ext_refl split: option.splits)

lemma grows_step: "wf s \<Longrightarrow> grows s (store_step x s)"
  by (cases x) (simp_all add: grows_startTrial grows_endStroke grows_endTrial grows_startStroke
     grows_addStrokePoint grows_recordAction grows_addGazePoint)

lemma sessionTrials_wf: "wf s \<Longrightarrow> sessionTrials s = map (deref_trial s) (trialObjs s)"
  by (auto simp: sessionTrials_def wf_def intro!: nth_equalityI)

lemma deref_ext:
  assumes "\<forall>r\<in>set (strokes t). stroke_ext (strokeObjs s ! r) (strokeObjs s' ! r)"
    and "trialNumber t' = trialNumber t" "trial_startTime t' = trial_startTime t"
    and "prefix (actions t) (actions t')" "prefix (gazeData t) (gazeData t')"
    and "prefix (strokes t) (strokes t')"
    and "trial_endTime t \<noteq> None \<longrightarrow>
           t' = t \<and> (\<forall>r\<in>set (strokes t). strokeObjs s' ! r = strokeObjs s ! r)"
  shows "trial_ext (deref_trial s t) (deref_trial s' t')"
proof -
  obtain zs where zs: "strokes t' = strokes t @ zs"
    using assms(6) by (auto simp: prefix_def)
  have "list_all2 stroke_ext (map (\<lambda>r. strokeObjs s ! r) (strokes t))
          (map (\<lambda>r. strokeObjs s' ! r) (strokes t))"
    using assms(1) by (simp add: list_all2_map1 list_all2_map2 list_all2_same)
  moreover have "trial_endTime t \<noteq> None \<Longrightarrow> deref_trial s' t' = deref_trial s t"
    using assms(7) by (simp add: deref_trial_def)
  ultimately show ?thesis
    using assms(2-5) zs by (auto simp: trial_ext_def deref_trial_def)
qed

lemma grows_session_ext:
  assumes "wf s" "wf s'" "grows s s'"
  shows "session_ext (sessionTrials s) (sessionTrials s')"
proof -
  have "trial_ext (deref_trial s (trialObjs s ! c)) (deref_trial s' (trialObjs s' ! c))"
    if "c < length (trialObjs s)" for c
  proof (rule deref_ext)
    show "\<forall>r\<in>set (strokes (trialObjs s ! c)). stroke_ext (strokeObjs s ! r) (strokeObjs s' ! r)"
      using assms(1,3) that by (auto simp: wf_def grows_def)
  qed (use assms(3) that in \<open>auto simp: grows_def\<close>)
  moreover have "length (trialObjs s) \<le> length (trialObjs s')"
    using assms(3) by (simp add: grows_def)
  ultimately show ?thesis
    by (simp add: session_ext_nth sessionTrials_wf assms(1,2))
qed

lemma step_session_ext: "wf s \<Longrightarrow> session_ext (sessionTrials s) (sessionTrials (store_step x s))"
  by (rule grows_session_ext) (simp_all add: wf_step grows_step)

lemma run_session_ext: "wf s \<Longrightarrow> session_ext (sessionTrials s) (sessionTrials (store_run xs s))"
proof (induction xs arbitrary: s)
  case Nil
  show ?case by (simp add: session_ext_refl)
next
  case (Cons x xs)
  have "session_ext (sessionTrials s) (sessionTrials (store_step x s))"
    using Cons.prems by (rule step_session_ext)
  moreover have "session_ext (sessionTrials (store_step x s)) (sessionTrials (store_run xs (store_step x s)))"
    using Cons.prems by (intro Cons.IH wf_step)
  ultimately show ?case
    by (auto intro: session_ext_trans)
qed

lemma store_run_append: "store_run (xs @ ys) s = store_run ys (store_run xs s)"
  by (induction xs arbitrary: s) simp_all

text \<open>
  Claim C1. Whatever operations \<open>ops1\<close> were run on a new store and whatever operations
  \<open>ops2\<close> follow, the exported record after \<open>ops2\<close> extends the record before them: no
  trial, stroke, action or gaze sample is removed or moved, a stroke or trial that had its
  end time is unchanged, and an open one only gets records appended or its end time stamped.
\<close>

theorem committed_records_preserved:
  "session_ext (sessionTrials (store_run ops1 (DataStore_new clk)))
               (sessionTrials (store_run (ops1 @ ops2) (DataStore_new clk)))"
  by (simp add: store_run_append run_session_ext wf_run wf_new)

theorem committed_records_preserved_witness:
  "stroke_endTime (hd (strokes (hd (sessionTrials
      (store_run [StartTrial, StartStroke ''pen'' ''#1a1a2e'' 4, AddStrokePoint 10 10 None,
                  EndStroke, RecordAction ''undo'', AddGazePoint (Num 3) (Num 4)]
         (DataStore_new real)))))) = Some 4 \<and>
   session_ext
     (sessionTrials
        (store_run [StartTrial, StartStroke ''pen'' ''#1a1a2e'' 4, AddStrokePoint 10 10 None,
                    EndStroke, RecordAction ''undo'', AddGazePoint (Num 3) (Num 4)]
           (DataStore_new real)))
     (sessionTrials
        (store_run ([StartTrial, StartStroke ''pen'' ''#1a1a2e'' 4, AddStrokePoint 10 10 None,
                     EndStroke, RecordAction ''undo'', AddGazePoint (Num 3) (Num 4)] @
                    [StartStroke ''eraser'' ''#1a1a2e'' 8, AddStrokePoint 1 2 (Some 1),
                     RecordAction ''clear'', EndTrial, StartTrial])
           (DataStore_new real))) \<and>
   length (sessionTrials
        (store_run ([StartTrial, StartStroke ''pen'' ''#1a1a2e'' 4, AddStrokePoint 10 10 None,
                     EndStroke, RecordAction ''undo'', AddGazePoint (Num 3) (Num 4)] @
                    [StartStroke ''eraser'' ''#1a1a2e'' 8, AddStrokePoint 1 2 (Some 1),
                     RecordAction ''clear'', EndTrial, StartTrial])
           (DataStore_new real))) = 2"
  using committed_records_preserved
    [of "[StartTrial, StartStroke ''pen'' ''#1a1a2e'' 4, AddStrokePoint 10 10 None,
          EndStroke, RecordAction ''undo'', AddGazePoint (Num 3) (Num 4)]" real
        "[StartStroke ''eraser'' ''#1a1a2e'' 8, AddStrokePoint 1 2 (Some 1),
          RecordAction ''clear'', EndTrial, StartTrial]"]
  by (simp add: store_defs DataStore_new_def sessionTrials_def deref_trial_def)

section \<open>States the application can reach\<close>

lemmas engine_defs = onPointerDown_def onPointerMove_def onPointerUp_def undo_def clearAll_def
  enable_def disable_def reset_def setTool_def setColor_def setThickness_def addPoint_def
  getPointerPos_def onGaze_def

lemmas eval_defs = example_state_def example_session_def engine_defs store_defs
  DataStore_new_def DrawingEngine_new_def sessionTrials_def deref_trial_def js_round_def

lemma wf_reach: "wf (store_run ops (DataStore_new clk))"
  by (simp add: wf_run wf_new)

lemma wf_app_step: "wf (snd w) \<Longrightarrow> wf (snd (app_step x w))"
  by (cases x; cases w)
     (simp_all add: engine_defs Let_def wf_startStroke wf_addStrokePoint wf_endStroke
        wf_recordAction wf_addGazePoint wf_step)

lemma wf_app_run: "wf (snd w) \<Longrightarrow> wf (snd (app_run xs w))"
  by (induction xs arbitrary: w) (simp_all add: wf_app_step)

lemma wf_app_reach: "wf (snd (app_run ops (g0, DataStore_new clk)))"
  by (simp add: wf_app_run wf_new)

lemma nth_update_any: "j < length xs \<Longrightarrow> xs[i := x] ! j = (if i = j then x else xs ! j)"
  by (cases "i = j") simp_all

lemma trials_nth_wf: "wf s \<Longrightarrow> currentTrial s = Some c \<Longrightarrow> c < length (trials s) \<and> trials s ! c = c"
  by (simp add: wf_def)

text \<open>The example session, evaluated.\<close>

lemma example_state_eval:
  "example_state =
     (\<lparr>eng_tool = ''pen'', eng_color = ''#1a1a2e'', eng_thickness = 4, isDrawing = False,
       enabled = True,
       strokeHistory =
         [\<lparr>h_tool = ''pen'', h_color = ''#1a1a2e'', h_thickness = 4,
           h_points = [\<lparr>hp_x = 10, hp_y = 10, hp_pressure = 1 / 2\<rparr>,
                       \<lparr>hp_x = 20, hp_y = 20, hp_pressure = 7 / 10\<rparr>]\<rparr>],
       currentPoints = []\<rparr>,
      \<lparr>clock = real, reads = 6, sessionStartPerf = 0, trials = [0],
       trialObjs = [\<lparr>trialNumber = 1, trial_startTime = 1, trial_endTime = None,
                     strokes = [0], actions = [], gazeData = []\<rparr>],
       strokeObjs = [\<lparr>strokeId = 0, tool = ''pen'', color = ''#1a1a2e'', thickness = 4,
                      stroke_startTime = 2, stroke_endTime = Some 5,
                      points = [\<lparr>pt_x = 10, pt_y = 10, pt_pressure = 1 / 2, pt_time = 3\<rparr>,
                                \<lparr>pt_x = 20, pt_y = 20, pt_pressure = 7 / 10, pt_time = 4\<rparr>]\<rparr>],
       currentTrial = Some 0, currentStroke = None, strokeCounter = 1\<rparr>)"
  by (simp add: eval_defs)

section \<open>Undo and clear change the rendering history, not the record\<close>

text \<open>What \<^verbatim>\<open>recordAction\<close> and \<^verbatim>\<open>addGazePoint\<close> do to the exported record.\<close>

lemma deref_trial_strokeObjs_cong:
  "strokeObjs s' = strokeObjs s \<Longrightarrow> deref_trial s' = deref_trial s"
  by (rule ext) (simp add: deref_trial_def)

lemma sessionTrials_recordAction:
  assumes "wf s" "currentTrial s = Some c"
  shows "sessionTrials (recordAction a s) =
         (sessionTrials s)[c := (sessionTrials s ! c)
            \<lparr>actions := actions (sessionTrials s ! c) @ [\<lparr>act_type = a, act_time = fst (now s)\<rparr>]\<rparr>]"
proof -
  have c: "c < length (trialObjs s)" using assms by (simp add: wf_def)
  have d: "deref_trial (recordAction a s) = deref_trial s"
    using assms(2) by (intro deref_trial_strokeObjs_cong) (simp add: store_defs)
  let ?s' = "recordAction a s"
  let ?t' = "(trialObjs s ! c)
            \<lparr>actions := actions (trialObjs s ! c) @ [\<lparr>act_type = a, act_time = fst (now s)\<rparr>]\<rparr>"
  have "sessionTrials (recordAction a s) = map (deref_trial (recordAction a s)) (trialObjs (recordAction a s))"
    using assms(1) by (intro sessionTrials_wf wf_recordAction)
  also have "\<dots> = (map (deref_trial s) (trialObjs s))[c := deref_trial s ?t']"
  proof -
    have "trialObjs ?s' = (trialObjs s)[c := ?t']"
      using assms(2) by (simp add: store_defs)
    then show ?thesis by (simp add: d map_update)
  qed
  finally show ?thesis
    using c by (simp add: sessionTrials_wf[OF assms(1)] deref_trial_def)
qed


text \<open>
  Claim C2. In a state the application can reach, with \<open>N \<ge> 1\<close> entries in the rendering
  history and \<open>N\<close> strokes listed by the open trial, \<^verbatim>\<open>undo\<close> leaves \<open>N - 1\<close> entries in the
  history (the last one is dropped), the open trial still lists the same \<open>N\<close> strokes, and
  the exported record changes only by one \<^verbatim>\<open>undo\<close> action, stamped with the clock, appended
  to the open trial. The open trial, known to the store by the ref \<open>c\<close>, is the element at
  index \<open>c\<close> of the trial list.
\<close>

theorem undo_keeps_record:
  assumes reach: "(g, s) = app_run ops (DrawingEngine_new, DataStore_new clk)"
    and N: "length (strokeHistory g) = N" "1 \<le> N"
    and cur: "currentTrial s = Some c"
    and rec: "length (strokes (sessionTrials s ! c)) = N"
    and res: "(g', s') = undo (g, s)"
  shows "c < length (trials s) \<and> trials s ! c = c \<and>
         length (strokeHistory g') = N - 1 \<and>
         strokeHistory g' = butlast (strokeHistory g) \<and>
         length (strokes (sessionTrials s' ! c)) = N \<and>
         strokes (sessionTrials s' ! c) = strokes (sessionTrials s ! c) \<and>
         sessionTrials s' =
           (sessionTrials s)[c := (sessionTrials s ! c)
              \<lparr>actions := actions (sessionTrials s ! c) @
                 [\<lparr>act_type = ''undo'', act_time = fst (now s)\<rparr>]\<rparr>]"
proof -
  have "wf (snd (g, s))" unfolding reach by (rule wf_app_reach)
  then have wf: "wf s" by simp
  have g': "g' = g\<lparr>strokeHistory := butlast (strokeHistory g)\<rparr>" and s': "s' = recordAction ''undo'' s"
  proof -
    have "strokeHistory g \<noteq> []" using N by auto
    then show "g' = g\<lparr>strokeHistory := butlast (strokeHistory g)\<rparr>" "s' = recordAction ''undo'' s"
      using res by (simp_all add: undo_def)
  qed
  have c: "c < length (sessionTrials s)"
    using trials_nth_wf[OF wf cur] by (simp add: sessionTrials_def)
  have v: "sessionTrials s' =
           (sessionTrials s)[c := (sessionTrials s ! c)
              \<lparr>actions := actions (sessionTrials s ! c) @
                 [\<lparr>act_type = ''undo'', act_time = fst (now s)\<rparr>]\<rparr>]"
    unfolding s' using wf cur by (rule sessionTrials_recordAction)
  have "strokes (sessionTrials s' ! c) = strokes (sessionTrials s ! c)"
    using c by (simp add: v)
  then show ?thesis using N rec v trials_nth_wf[OF wf cur] by (simp add: g')
qed

theorem undo_keeps_record_witness:
  "length (strokeHistory (fst example_state)) = 1 \<and>
   currentTrial (snd example_state) = Some 0 \<and>
   length (strokes (sessionTrials (snd example_state) ! 0)) = 1 \<and>
   length (strokeHistory (fst (undo example_state))) = 0 \<and>
   length (strokes (sessionTrials (snd (undo example_state)) ! 0)) = 1 \<and>
   actions (sessionTrials (snd (undo example_state)) ! 0) = [\<lparr>act_type = ''undo'', act_time = 6\<rparr>]"
  using undo_keeps_record
    [of "fst example_state" "snd example_state" example_session real 1 0
        "fst (undo example_state)" "snd (undo example_state)"]
  by (simp add: example_state_def[symmetric]) (simp add: example_state_eval eval_defs)

text \<open>
  Claim C3. In a state the application can reach, \<^verbatim>\<open>clearAll\<close> empties the rendering
  history and leaves the stroke list of every trial of the record as it was; when a trial is
  open the record changes only by one \<^verbatim>\<open>clear\<close> action appended to it, and when none is
  open the store does not change at all.
\<close>

theorem clear_keeps_record:
  assumes reach: "(g, s) = app_run ops (DrawingEngine_new, DataStore_new clk)"
    and res: "(g', s') = clearAll (g, s)"
  shows "strokeHistory g' = [] \<and>
         map strokes (sessionTrials s') = map strokes (sessionTrials s) \<and>
         (\<forall>c. currentTrial s = Some c \<longrightarrow>
            c < length (trials s) \<and> trials s ! c = c \<and>
            sessionTrials s' =
              (sessionTrials s)[c := (sessionTrials s ! c)
                 \<lparr>actions := actions (sessionTrials s ! c) @
                    [\<lparr>act_type = ''clear'', act_time = fst (now s)\<rparr>]\<rparr>]) \<and>
         (currentTrial s = None \<longrightarrow> s' = s)"
proof -
  have "wf (snd (g, s))" unfolding reach by (rule wf_app_reach)
  then have wf: "wf s" by simp
  have g': "g' = g\<lparr>strokeHistory := []\<rparr>" and s': "s' = recordAction ''clear'' s"
    using res by (auto simp: clearAll_def)
  have v: "sessionTrials s' =
              (sessionTrials s)[c := (sessionTrials s ! c)
                 \<lparr>actions := actions (sessionTrials s ! c) @
                    [\<lparr>act_type = ''clear'', act_time = fst (now s)\<rparr>]\<rparr>]"
    if "currentTrial s = Some c" for c
    unfolding s' using wf that by (rule sessionTrials_recordAction)
  have n: "s' = s" if "currentTrial s = None"
    using that by (simp add: s' recordAction_def)
  have "map strokes (sessionTrials s') = map strokes (sessionTrials s)"
  proof (cases "currentTrial s")
    case None
    then show ?thesis by (simp add: n)
  next
    case (Some c)
    show ?thesis
    proof (rule nth_equalityI)
      show "length (map strokes (sessionTrials s')) = length (map strokes (sessionTrials s))"
        by (simp add: v[OF Some])
    next
      fix i assume "i < length (map strokes (sessionTrials s'))"
      then have "i < length (sessionTrials s)" by (simp add: v[OF Some])
      then show "map strokes (sessionTrials s') ! i = map strokes (sessionTrials s) ! i"
        by (cases "i = c") (simp_all add: v[OF Some])
    qed
  qed
  then show ?thesis using v n trials_nth_wf[OF wf] by (simp add: g')
qed

theorem clear_keeps_record_witness:
  "strokeHistory (fst (clearAll example_state)) = [] \<and>
   currentTrial (snd example_state) = Some 0 \<and>
   map strokes (sessionTrials (snd (clearAll example_state))) =
     map strokes (sessionTrials (snd example_state)) \<and>
   length (strokes (sessionTrials (snd (clearAll example_state)) ! 0)) = 1 \<and>
   actions (sessionTrials (snd (clearAll example_state)) ! 0) = [\<lparr>act_type = ''clear'', act_time = 6\<rparr>]"
  using clear_keeps_record
    [of "fst example_state" "snd example_state" example_session real
        "fst (clearAll example_state)" "snd (clearAll example_state)"]
  by (simp add: example_state_def[symmetric]) (simp add: example_state_eval eval_defs)

section \<open>Strokes without points\<close>

lemma nonempty_history_step: "nonempty_history (fst w) \<Longrightarrow> nonempty_history (fst (app_step x w))"
  by (cases x; cases w) (auto simp: nonempty_history_def engine_defs Let_def dest: in_set_butlastD)

lemma nonempty_history_run: "nonempty_history (fst w) \<Longrightarrow> nonempty_history (fst (app_run xs w))"
  by (induction xs arbitrary: w) (simp_all add: nonempty_history_step)

lemma nonempty_endStroke: "nonempty_strokes s \<Longrightarrow> nonempty_strokes (endStroke s)"
  by (auto simp: nonempty_strokes_def store_defs nth_update_any split: option.splits)

lemma nonempty_addStrokePoint: "nonempty_strokes s \<Longrightarrow> nonempty_strokes (addStrokePoint a b c s)"
  by (auto simp: nonempty_strokes_def store_defs nth_update_any split: option.splits)

lemma nonempty_endTrial: "nonempty_strokes s \<Longrightarrow> nonempty_strokes (endTrial s)"
  by (auto simp: nonempty_strokes_def store_defs nth_update_any split: option.splits)

lemma nonempty_startTrial: "nonempty_strokes s \<Longrightarrow> nonempty_strokes (snd (startTrial s))"
  by (auto simp: nonempty_strokes_def store_defs)

lemma nonempty_recordAction: "nonempty_strokes s \<Longrightarrow> nonempty_strokes (recordAction a s)"
  by (auto simp: nonempty_strokes_def store_defs split: option.splits)

lemma nonempty_addGazePoint: "nonempty_strokes s \<Longrightarrow> nonempty_strokes (addGazePoint a b s)"
  by (auto simp: nonempty_strokes_def store_defs split: option.splits)

lemma nonempty_start_add:
  "nonempty_strokes s \<Longrightarrow> nonempty_strokes (addStrokePoint a b c (startStroke t col th s))"
  by (auto simp: nonempty_strokes_def store_defs nth_update_any nth_append less_Suc_eq split: option.splits)

lemma nonempty_store_step:
  "nonempty_strokes s \<Longrightarrow> \<not> direct_startStroke (Store x) \<Longrightarrow> nonempty_strokes (store_step x s)"
  by (cases x) (simp_all add: nonempty_endStroke nonempty_addStrokePoint nonempty_endTrial
     nonempty_startTrial nonempty_recordAction nonempty_addGazePoint)

lemma nonempty_app_step:
  "nonempty_strokes (snd w) \<Longrightarrow> \<not> direct_startStroke x \<Longrightarrow> nonempty_strokes (snd (app_step x w))"
  by (cases x; cases w)
     (simp_all add: engine_defs Let_def nonempty_endStroke nonempty_addStrokePoint
        nonempty_recordAction nonempty_addGazePoint nonempty_start_add nonempty_store_step
      del: direct_startStroke.simps)

lemma nonempty_app_run:
  "nonempty_strokes (snd w) \<Longrightarrow> \<forall>x\<in>set xs. \<not> direct_startStroke x \<Longrightarrow>
   nonempty_strokes (snd (app_run xs w))"
  by (induction xs arbitrary: w) (simp_all add: nonempty_app_step)

text \<open>
  Claim C4, as amended. After any sequence of application events the rendering history
  holds only strokes with at least one point, and so does the record as long as
  \<^verbatim>\<open>startStroke\<close> is reached through the pointer-down handler only, which adds the first
  point in the same call. The store itself discards nothing: \<^verbatim>\<open>startStroke\<close> puts the
  stroke, still without points, on the open trial's list.
\<close>

theorem no_empty_stroke_retained:
  assumes reach: "(g, s) = app_run ops (DrawingEngine_new, DataStore_new clk)"
  shows "(\<forall>h\<in>set (strokeHistory g). h_points h \<noteq> []) \<and>
         ((\<forall>x\<in>set ops. \<not> direct_startStroke x) \<longrightarrow>
          (\<forall>t\<in>set (sessionTrials s). \<forall>k\<in>set (strokes t). points k \<noteq> []))"
proof -
  have "nonempty_history (fst (g, s))"
    unfolding reach by (rule nonempty_history_run) (simp add: nonempty_history_def DrawingEngine_new_def)
  then have h: "\<forall>h\<in>set (strokeHistory g). h_points h \<noteq> []"
    by (simp add: nonempty_history_def)
  have "wf (snd (g, s))" unfolding reach by (rule wf_app_reach)
  then have wf: "wf s" by simp
  have v: "sessionTrials s = map (deref_trial s) (trialObjs s)"
    using wf by (rule sessionTrials_wf)
  have "\<forall>t\<in>set (sessionTrials s). \<forall>k\<in>set (strokes t). points k \<noteq> []"
    if ops: "\<forall>x\<in>set ops. \<not> direct_startStroke x"
  proof -
    have "nonempty_strokes (snd (g, s))"
      unfolding reach using ops
      by (intro nonempty_app_run) (simp_all add: nonempty_strokes_def DataStore_new_def)
    then have ne: "nonempty_strokes s" by simp
    show ?thesis
    proof (intro ballI)
      fix t k assume t: "t \<in> set (sessionTrials s)" and k: "k \<in> set (strokes t)"
      obtain c where c: "c < length (trialObjs s)" and tc: "t = deref_trial s (trialObjs s ! c)"
        using t unfolding v by (auto simp: in_set_conv_nth)
      obtain r where r: "r \<in> set (strokes (trialObjs s ! c))" and kr: "k = strokeObjs s ! r"
        using k by (auto simp: tc deref_trial_def)
      have "r < length (strokeObjs s)" using wf c r by (simp add: wf_def)
      then show "points k \<noteq> []" using ne by (simp add: kr nonempty_strokes_def)
    qed
  qed
  then show ?thesis using h by blast
qed

theorem no_empty_stroke_retained_witness:
  "map h_points (strokeHistory (fst example_state)) =
     [[\<lparr>hp_x = 10, hp_y = 10, hp_pressure = 1 / 2\<rparr>, \<lparr>hp_x = 20, hp_y = 20, hp_pressure = 7 / 10\<rparr>]] \<and>
   map (\<lambda>t. map (\<lambda>k. length (points k)) (strokes t)) (sessionTrials (snd example_state)) = [[2]] \<and>
   list_all (\<lambda>x. \<not> direct_startStroke x) example_session"
  using no_empty_stroke_retained
    [of "fst example_state" "snd example_state" example_session real]
  by (simp add: example_state_def[symmetric]) (simp add: example_state_eval eval_defs)

text \<open>
  The claim as stated fails on the store: \<^verbatim>\<open>startStroke\<close> followed by \<^verbatim>\<open>endStroke\<close>
  leaves a finished stroke with no points in the trial's list.
\<close>

theorem zero_point_stroke_counterexample:
  "length (sessionTrials (store_run
      [StartTrial, StartStroke ''pen'' ''#1a1a2e'' 4, EndStroke, EndTrial] (DataStore_new real))) = 1 \<and>
   strokes (hd (sessionTrials (store_run
      [StartTrial, StartStroke ''pen'' ''#1a1a2e'' 4, EndStroke, EndTrial] (DataStore_new real)))) =
     [\<lparr>strokeId = 0, tool = ''pen'', color = ''#1a1a2e'', thickness = 4,
       stroke_startTime = 2, stroke_endTime = Some 3, points = []\<rparr>]"
  by (simp add: eval_defs)

section \<open>Non-primary pointers\<close>

text \<open>
  The pointer-down and pointer-move handlers return at once on an event that is not
  primary. The handler bound to pointer-up, pointer-cancel and pointer-leave never reads
  \<^verbatim>\<open>isPrimary\<close>.
\<close>

lemma nonprimary_pointer_down_ignored: "\<not> isPrimary e \<Longrightarrow> onPointerDown e w = w"
  by (cases w) (simp add: onPointerDown_def)

lemma nonprimary_pointer_move_ignored: "\<not> isPrimary e \<Longrightarrow> onPointerMove e w = w"
  by (cases w) (simp add: onPointerMove_def)

lemma pointer_up_ignores_isPrimary:
  "onPointerUp (e\<lparr>isPrimary := b\<rparr>) w = onPointerUp e w"
  by (cases w) (simp add: onPointerUp_def)

text \<open>
  Claim C5 does not hold of the code. With a trial open and the engine enabled, a primary
  pointer goes down at (10, 10); then a pointer-up event that is not primary arrives. The
  handler clears \<^verbatim>\<open>isDrawing\<close>, commits the one-point stroke to the rendering history and
  ends the stroke in the store.
\<close>

theorem nonprimary_pointer_up_ends_stroke:
  "isDrawing (fst (onPointerDown
      \<lparr>clientX = 10, clientY = 10, ev_pressure = Some (1 / 2), isPrimary = True, rectLeft = 0, rectTop = 0\<rparr>
      (enable (DrawingEngine_new), snd (startTrial (DataStore_new real))))) \<and>
   currentStroke (snd (onPointerDown
      \<lparr>clientX = 10, clientY = 10, ev_pressure = Some (1 / 2), isPrimary = True, rectLeft = 0, rectTop = 0\<rparr>
      (enable (DrawingEngine_new), snd (startTrial (DataStore_new real))))) = Some 0 \<and>
   onPointerUp \<lparr>clientX = 300, clientY = 300, ev_pressure = Some 0, isPrimary = False, rectLeft = 0, rectTop = 0\<rparr>
     (onPointerDown
        \<lparr>clientX = 10, clientY = 10, ev_pressure = Some (1 / 2), isPrimary = True, rectLeft = 0, rectTop = 0\<rparr>
        (enable (DrawingEngine_new), snd (startTrial (DataStore_new real)))) =
     (\<lparr>eng_tool = ''pen'', eng_color = ''#1a1a2e'', eng_thickness = 4, isDrawing = False,
       enabled = True,
       strokeHistory =
         [\<lparr>h_tool = ''pen'', h_color = ''#1a1a2e'', h_thickness = 4,
           h_points = [\<lparr>hp_x = 10, hp_y = 10, hp_pressure = 1 / 2\<rparr>]\<rparr>],
       currentPoints = []\<rparr>,
      \<lparr>clock = real, reads = 5, sessionStartPerf = 0, trials = [0],
       trialObjs = [\<lparr>trialNumber = 1, trial_startTime = 1, trial_endTime = None,
                     strokes = [0], actions = [], gazeData = []\<rparr>],
       strokeObjs = [\<lparr>strokeId = 0, tool = ''pen'', color = ''#1a1a2e'', thickness = 4,
                      stroke_startTime = 2, stroke_endTime = Some 4,
                      points = [\<lparr>pt_x = 10, pt_y = 10, pt_pressure = 1 / 2, pt_time = 3\<rparr>]\<rparr>],
       currentTrial = Some 0, currentStroke = None, strokeCounter = 1\<rparr>)"
  by (simp add: eval_defs)

section \<open>Trial numbers and stroke ids\<close>

lemma ids_ok_new: "ids_ok (DataStore_new clk)"
  by (simp add: ids_ok_def DataStore_new_def)

lemma ids_ok_startTrial: "wf s \<Longrightarrow> ids_ok s \<Longrightarrow> ids_ok (snd (startTrial s))"
  by (auto simp: ids_ok_def wf_def store_defs nth_append less_Suc_eq)

lemma ids_ok_endStroke: "wf s \<Longrightarrow> ids_ok s \<Longrightarrow> ids_ok (endStroke s)"
  by (auto simp: ids_ok_def wf_def store_defs nth_list_update split: option.splits)

lemma ids_ok_endTrial: "wf s \<Longrightarrow> ids_ok s \<Longrightarrow> ids_ok (endTrial s)"
  by (auto simp: ids_ok_def wf_def store_defs nth_list_update split: option.splits)

lemma ids_ok_startStroke: "wf s \<Longrightarrow> ids_ok s \<Longrightarrow> ids_ok (startStroke a b c s)"
  by (auto simp: ids_ok_def wf_def store_defs nth_list_update nth_append less_Suc_eq split: option.splits)

lemma ids_ok_addStrokePoint: "wf s \<Longrightarrow> ids_ok s \<Longrightarrow> ids_ok (addStrokePoint a b c s)"
  by (auto simp: ids_ok_def wf_def store_defs nth_list_update split: option.splits)

lemma ids_ok_recordAction: "wf s \<Longrightarrow> ids_ok s \<Longrightarrow> ids_ok (recordAction a s)"
  by (auto simp: ids_ok_def wf_def store_defs nth_list_update split: option.splits)

lemma ids_ok_addGazePoint: "wf s \<Longrightarrow> ids_ok s \<Longrightarrow> ids_ok (addGazePoint a b s)"
  by (auto simp: ids_ok_def wf_def store_defs nth_list_update split: option.splits)

lemma ids_ok_step: "wf s \<Longrightarrow> ids_ok s \<Longrightarrow> ids_ok (store_step x s)"
  by (cases x) (simp_all add: ids_ok_startTrial ids_ok_endStroke ids_ok_endTrial ids_ok_startStroke
     ids_ok_addStrokePoint ids_ok_recordAction ids_ok_addGazePoint)

lemma ids_ok_run: "wf s \<Longrightarrow> ids_ok s \<Longrightarrow> ids_ok (store_run xs s)"
  by (induction xs arbitrary: s) (simp_all add: ids_ok_step wf_step)

lemma ids_ok_reach: "ids_ok (store_run ops (DataStore_new clk))"
  by (simp add: ids_ok_run wf_new ids_ok_new)

lemma ids_ok_view:
  assumes "wf s" "ids_ok s"
  shows "map trialNumber (sessionTrials s) = map Suc [0..<length (sessionTrials s)]"
    and "\<forall>t\<in>set (sessionTrials s). map strokeId (strokes t) = [0..<length (strokes t)]"
proof -
  have v: "sessionTrials s = map (deref_trial s) (trialObjs s)"
    using assms(1) by (rule sessionTrials_wf)
  have "map trialNumber (map (deref_trial s) (trialObjs s)) = map Suc [0..<length (trialObjs s)]"
  proof (rule nth_equalityI)
    show "length (map trialNumber (map (deref_trial s) (trialObjs s))) =
          length (map Suc [0..<length (trialObjs s)])" by simp
  next
    fix i assume "i < length (map trialNumber (map (deref_trial s) (trialObjs s)))"
    then have i: "i < length (trialObjs s)" by simp
    then have "trialNumber (trialObjs s ! i) = Suc i"
      using assms(2) by (simp add: ids_ok_def)
    then show "map trialNumber (map (deref_trial s) (trialObjs s)) ! i =
               map Suc [0..<length (trialObjs s)] ! i"
      using i by (simp add: deref_trial_def)
  qed
  then show "map trialNumber (sessionTrials s) = map Suc [0..<length (sessionTrials s)]"
    by (simp add: v)
  have "map strokeId (strokes (deref_trial s (trialObjs s ! c))) =
        [0..<length (strokes (deref_trial s (trialObjs s ! c)))]"
    if c: "c < length (trialObjs s)" for c
  proof (rule nth_equalityI)
    show "length (map strokeId (strokes (deref_trial s (trialObjs s ! c)))) =
          length [0..<length (strokes (deref_trial s (trialObjs s ! c)))]" by simp
  next
    fix i assume "i < length (map strokeId (strokes (deref_trial s (trialObjs s ! c))))"
    then have i: "i < length (strokes (trialObjs s ! c))" by (simp add: deref_trial_def)
    then have "strokeId (strokeObjs s ! (strokes (trialObjs s ! c) ! i)) = i"
      using assms(2) c by (simp add: ids_ok_def)
    then show "map strokeId (strokes (deref_trial s (trialObjs s ! c))) ! i =
               [0..<length (strokes (deref_trial s (trialObjs s ! c)))] ! i"
      using i by (simp add: deref_trial_def)
  qed
  then show "\<forall>t\<in>set (sessionTrials s). map strokeId (strokes t) = [0..<length (strokes t)]"
    unfolding v by (auto simp: in_set_conv_nth)
qed

text \<open>
  Claim C6. After any sequence of store operations, \<^verbatim>\<open>startTrial\<close> returns the number of
  trials in the list plus one; the new trial is appended at that (1-indexed) position with
  that number, so the numbers in the list are \<open>1, 2, \<dots>\<close> in order and none is used twice;
  the stroke counter is reset to 0; and in every trial the stroke ids are \<open>0, 1, \<dots>\<close> in
  the order the strokes were started.
\<close>

theorem trial_numbers_and_stroke_ids:
  assumes s: "s = store_run ops (DataStore_new clk)"
    and n: "n = fst (startTrial s)" and s': "s' = snd (startTrial s)"
  shows "n = length (sessionTrials s) + 1 \<and>
         sessionTrials s' = sessionTrials s @
           [\<lparr>trialNumber = n, trial_startTime = fst (now s), trial_endTime = None,
             strokes = [], actions = [], gazeData = []\<rparr>] \<and>
         map trialNumber (sessionTrials s') = map Suc [0..<n] \<and>
         strokeCounter s' = 0 \<and>
         (\<forall>t\<in>set (sessionTrials s'). map strokeId (strokes t) = [0..<length (strokes t)])"
proof -
  have wf: "wf s" using s by (simp add: wf_reach)
  have ids: "ids_ok s" using s by (simp add: ids_ok_reach)
  have wf': "wf s'" using wf s' by (simp add: wf_startTrial)
  have ids': "ids_ok s'" using wf ids s' by (simp add: ids_ok_startTrial)
  have v: "sessionTrials s = map (deref_trial s) (trialObjs s)"
    using wf by (rule sessionTrials_wf)
  have v': "sessionTrials s' = map (deref_trial s') (trialObjs s')"
    using wf' by (rule sessionTrials_wf)
  have 1: "n = length (sessionTrials s) + 1"
    by (simp add: n startTrial_def Let_def now_def sessionTrials_def)
  have "map (deref_trial s') (trialObjs s) = map (deref_trial s) (trialObjs s)"
    by (simp add: s' deref_trial_def store_defs)
  then have 2: "sessionTrials s' = sessionTrials s @
           [\<lparr>trialNumber = n, trial_startTime = fst (now s), trial_endTime = None,
             strokes = [], actions = [], gazeData = []\<rparr>]"
    unfolding v v' by (simp add: n s' store_defs deref_trial_def)
  have 3: "map trialNumber (sessionTrials s') = map Suc [0..<n]"
    using ids_ok_view(1)[OF wf' ids'] 1 2 by simp
  have 4: "strokeCounter s' = 0"
    by (simp add: s' store_defs)
  show ?thesis using 1 2 3 4 ids_ok_view(2)[OF wf' ids'] by blast
qed

theorem trial_numbers_and_stroke_ids_witness:
  "fst (startTrial (store_run
      [StartTrial, StartStroke ''pen'' ''#1a1a2e'' 4, EndStroke,
       StartStroke ''eraser'' ''#1a1a2e'' 8, EndTrial] (DataStore_new real))) = 2 \<and>
   map trialNumber (sessionTrials (snd (startTrial (store_run
      [StartTrial, StartStroke ''pen'' ''#1a1a2e'' 4, EndStroke,
       StartStroke ''eraser'' ''#1a1a2e'' 8, EndTrial] (DataStore_new real))))) = [1, 2] \<and>
   strokeCounter (snd (startTrial (store_run
      [StartTrial, StartStroke ''pen'' ''#1a1a2e'' 4, EndStroke,
       StartStroke ''eraser'' ''#1a1a2e'' 8, EndTrial] (DataStore_new real)))) = 0 \<and>
   map (\<lambda>t. map strokeId (strokes t)) (sessionTrials (snd (startTrial (store_run
      [StartTrial, StartStroke ''pen'' ''#1a1a2e'' 4, EndStroke,
       StartStroke ''eraser'' ''#1a1a2e'' 8, EndTrial] (DataStore_new real))))) = [[0, 1], []]"
  using trial_numbers_and_stroke_ids
    [OF refl refl refl,
     of "[StartTrial, StartStroke ''pen'' ''#1a1a2e'' 4, EndStroke,
          StartStroke ''eraser'' ''#1a1a2e'' 8, EndTrial]" real]
  by (simp add: eval_defs)

section \<open>Calls outside their valid state\<close>

text \<open>
  Claim C7. In every state a store can reach, when no trial is open \<^verbatim>\<open>addStrokePoint\<close>,
  \<^verbatim>\<open>addGazePoint\<close>, \<^verbatim>\<open>recordAction\<close> and \<^verbatim>\<open>startStroke\<close> return the store unchanged, also
  \<^verbatim>\<open>addStrokePoint\<close> after a \<^verbatim>\<open>startStroke\<close> that did nothing; and \<^verbatim>\<open>addStrokePoint\<close>
  returns the store unchanged whenever no stroke is open. The source has no \<^verbatim>\<open>throw\<close> on
  these paths, so the operations are total functions on the store.
\<close>

theorem calls_outside_valid_state_are_noops:
  assumes "s = store_run ops (DataStore_new clk)"
  shows "(currentTrial s = None \<longrightarrow>
            addStrokePoint px py pr s = s \<and> addGazePoint gx gy s = s \<and>
            recordAction a s = s \<and> startStroke tool' color' thickness' s = s \<and>
            addStrokePoint px py pr (startStroke tool' color' thickness' s) = s) \<and>
         (currentStroke s = None \<longrightarrow> addStrokePoint px py pr s = s)"
proof -
  have "wf s" using assms by (simp add: wf_reach)
  then have "currentTrial s = None \<Longrightarrow> currentStroke s = None"
    by (cases "currentStroke s") (auto simp: wf_def)
  then show ?thesis
    by (auto simp: addStrokePoint_def addGazePoint_def recordAction_def startStroke_def)
qed

theorem calls_outside_valid_state_are_noops_witness:
  "currentTrial (store_run [StartTrial, StartStroke ''pen'' ''#1a1a2e'' 4, AddStrokePoint 10 10 None, EndTrial]
      (DataStore_new real)) = None \<and>
   addStrokePoint 1 2 (Some 1)
     (store_run [StartTrial, StartStroke ''pen'' ''#1a1a2e'' 4, AddStrokePoint 10 10 None, EndTrial]
      (DataStore_new real)) =
     store_run [StartTrial, StartStroke ''pen'' ''#1a1a2e'' 4, AddStrokePoint 10 10 None, EndTrial]
      (DataStore_new real) \<and>
   addGazePoint (Num 3) (Num 4)
     (store_run [StartTrial, StartStroke ''pen'' ''#1a1a2e'' 4, AddStrokePoint 10 10 None, EndTrial]
      (DataStore_new real)) =
     store_run [StartTrial, StartStroke ''pen'' ''#1a1a2e'' 4, AddStrokePoint 10 10 None, EndTrial]
      (DataStore_new real) \<and>
   recordAction ''undo''
     (store_run [StartTrial, StartStroke ''pen'' ''#1a1a2e'' 4, AddStrokePoint 10 10 None, EndTrial]
      (DataStore_new real)) =
     store_run [StartTrial, StartStroke ''pen'' ''#1a1a2e'' 4, AddStrokePoint 10 10 None, EndTrial]
      (DataStore_new real) \<and>
   currentTrial (store_run [StartTrial] (DataStore_new real)) = Some 0 \<and>
   currentStroke (store_run [StartTrial] (DataStore_new real)) = None \<and>
   addStrokePoint 1 2 None (store_run [StartTrial] (DataStore_new real)) =
     store_run [StartTrial] (DataStore_new real)"
  using calls_outside_valid_state_are_noops
    [OF refl, of "[StartTrial, StartStroke ''pen'' ''#1a1a2e'' 4, AddStrokePoint 10 10 None, EndTrial]"
       real 1 2 "Some 1" "Num 3" "Num 4" "''undo''" "''pen''" "''#1a1a2e''" 4]
    calls_outside_valid_state_are_noops [OF refl, of "[StartTrial]" real 1 2 None]
  by (simp add: store_defs DataStore_new_def)

section \<open>Gaze samples\<close>






lemma clamp_round_NaN: "round_tenth (js_max (Num 0) (js_min NaN w)) = NaN"
  by simp

text \<open>So an estimate whose x is \<^verbatim>\<open>NaN\<close> is recorded with that x, here in the example session.\<close>

lemma onGaze_NaN_estimate_recorded:
  "gazeData (sessionTrials (onGaze 1024 768 NaN (Num 3) (snd example_state)) ! 0) =
     [\<lparr>gz_x = NaN, gz_y = Num 3, gz_time = 6\<rparr>]"
  by (simp add: example_state_eval eval_defs)




section \<open>Timestamps\<close>

lemma times_ok_new: "mono clk \<Longrightarrow> times_ok (DataStore_new clk)"
  by (simp add: times_ok_def DataStore_new_def)

lemma mono_ge0: "mono (f :: nat \<Rightarrow> real) \<Longrightarrow> f 0 \<le> f n"
  by (simp add: monoD)

lemma mono_later: "mono (f :: nat \<Rightarrow> real) \<Longrightarrow> Suc m \<le> n \<Longrightarrow> f m \<le> f n"
  by (simp add: monoD)

lemma times_ok_startTrial: "wf s \<Longrightarrow> times_ok s \<Longrightarrow> times_ok (snd (startTrial s))"
  by (auto simp: times_ok_def wf_def store_defs nth_append less_Suc_eq mono_ge0 mono_later)

lemma times_ok_endStroke: "wf s \<Longrightarrow> times_ok s \<Longrightarrow> times_ok (endStroke s)"
  by (auto simp: times_ok_def wf_def store_defs nth_list_update mono_ge0 mono_later split: option.splits)

lemma times_ok_endTrial: "wf s \<Longrightarrow> times_ok s \<Longrightarrow> times_ok (endTrial s)"
  by (auto simp: times_ok_def wf_def store_defs nth_list_update mono_ge0 mono_later split: option.splits)

lemma times_ok_startStroke: "wf s \<Longrightarrow> times_ok s \<Longrightarrow> times_ok (startStroke a b c s)"
  by (auto simp: times_ok_def wf_def store_defs nth_list_update nth_append less_Suc_eq mono_ge0 mono_later split: option.splits)

lemma times_ok_addStrokePoint: "wf s \<Longrightarrow> times_ok s \<Longrightarrow> times_ok (addStrokePoint a b c s)"
  by (auto simp: times_ok_def wf_def store_defs nth_list_update sorted_append mono_ge0 mono_later split: option.splits)

lemma times_ok_recordAction: "wf s \<Longrightarrow> times_ok s \<Longrightarrow> times_ok (recordAction a s)"
  by (auto simp: times_ok_def wf_def store_defs nth_list_update mono_ge0 mono_later split: option.splits)

lemma times_ok_addGazePoint: "wf s \<Longrightarrow> times_ok s \<Longrightarrow> times_ok (addGazePoint a b s)"
  by (auto simp: times_ok_def wf_def store_defs nth_list_update mono_ge0 mono_later split: option.splits)

lemma times_ok_step: "wf s \<Longrightarrow> times_ok s \<Longrightarrow> times_ok (store_step x s)"
  by (cases x) (simp_all add: times_ok_startTrial times_ok_endStroke times_ok_endTrial
     times_ok_startStroke times_ok_addStrokePoint times_ok_recordAction times_ok_addGazePoint)

lemma times_ok_run: "wf s \<Longrightarrow> times_ok s \<Longrightarrow> times_ok (store_run xs s)"
  by (induction xs arbitrary: s) (simp_all add: times_ok_step wf_step)

lemma times_ok_reach: "mono clk \<Longrightarrow> times_ok (store_run ops (DataStore_new clk))"
  by (simp add: times_ok_run wf_new times_ok_new)

lemma sorted_nth_Suc:
  "sorted (map f xs) \<Longrightarrow> Suc i < length xs \<Longrightarrow> f (xs ! i) \<le> f (xs ! Suc i)"
  using sorted_nth_mono[of "map f xs" i "Suc i"] by simp

text \<open>
  Claim C9. If the readings of the clock never decrease, then after any sequence of store
  operations every timestamp in the record (trial and stroke start and end times, action,
  gaze and point times) is non-negative, and within every stroke the time of a point is at
  most the time of the next.
\<close>

theorem timestamps_ordered_and_nonnegative:
  assumes clk: "mono clk" and s: "s = store_run ops (DataStore_new clk)"
  shows "\<forall>t\<in>set (sessionTrials s).
           0 \<le> trial_startTime t \<and>
           (\<forall>e. trial_endTime t = Some e \<longrightarrow> 0 \<le> e) \<and>
           (\<forall>a\<in>set (actions t). 0 \<le> act_time a) \<and>
           (\<forall>g\<in>set (gazeData t). 0 \<le> gz_time g) \<and>
           (\<forall>k\<in>set (strokes t).
              0 \<le> stroke_startTime k \<and>
              (\<forall>e. stroke_endTime k = Some e \<longrightarrow> 0 \<le> e) \<and>
              (\<forall>p\<in>set (points k). 0 \<le> pt_time p) \<and>
              (\<forall>i. Suc i < length (points k) \<longrightarrow>
                   pt_time (points k ! i) \<le> pt_time (points k ! Suc i)))"
proof
  fix t assume t: "t \<in> set (sessionTrials s)"
  have wf: "wf s" using s by (simp add: wf_reach)
  have ok: "times_ok s" using clk s by (simp add: times_ok_reach)
  have v: "sessionTrials s = map (deref_trial s) (trialObjs s)"
    using wf by (rule sessionTrials_wf)
  obtain c where c: "c < length (trialObjs s)" and tc: "t = deref_trial s (trialObjs s ! c)"
    using t unfolding v by (auto simp: in_set_conv_nth)
  have trial: "0 \<le> trial_startTime t" "\<forall>e. trial_endTime t = Some e \<longrightarrow> 0 \<le> e"
    "\<forall>a\<in>set (actions t). 0 \<le> act_time a" "\<forall>g\<in>set (gazeData t). 0 \<le> gz_time g"
    using ok c by (simp_all add: tc deref_trial_def times_ok_def)
  have stroke: "0 \<le> stroke_startTime k \<and>
              (\<forall>e. stroke_endTime k = Some e \<longrightarrow> 0 \<le> e) \<and>
              (\<forall>p\<in>set (points k). 0 \<le> pt_time p) \<and>
              (\<forall>i. Suc i < length (points k) \<longrightarrow>
                   pt_time (points k ! i) \<le> pt_time (points k ! Suc i))"
    if k: "k \<in> set (strokes t)" for k
  proof -
    obtain r where r: "r \<in> set (strokes (trialObjs s ! c))" and kr: "k = strokeObjs s ! r"
      using k by (auto simp: tc deref_trial_def)
    have rl: "r < length (strokeObjs s)" using wf c r by (simp add: wf_def)
    have "sorted (map pt_time (points k))"
      using ok rl by (simp add: kr times_ok_def)
    then have "\<forall>i. Suc i < length (points k) \<longrightarrow>
                   pt_time (points k ! i) \<le> pt_time (points k ! Suc i)"
      by (simp add: sorted_nth_Suc)
    moreover have "0 \<le> stroke_startTime k" "\<forall>e. stroke_endTime k = Some e \<longrightarrow> 0 \<le> e"
      "\<forall>p\<in>set (points k). 0 \<le> pt_time p"
      using ok rl by (simp_all add: kr times_ok_def)
    ultimately show ?thesis by blast
  qed
  show "0 \<le> trial_startTime t \<and>
           (\<forall>e. trial_endTime t = Some e \<longrightarrow> 0 \<le> e) \<and>
           (\<forall>a\<in>set (actions t). 0 \<le> act_time a) \<and>
           (\<forall>g\<in>set (gazeData t). 0 \<le> gz_time g) \<and>
           (\<forall>k\<in>set (strokes t).
              0 \<le> stroke_startTime k \<and>
              (\<forall>e. stroke_endTime k = Some e \<longrightarrow> 0 \<le> e) \<and>
              (\<forall>p\<in>set (points k). 0 \<le> pt_time p) \<and>
              (\<forall>i. Suc i < length (points k) \<longrightarrow>
                   pt_time (points k ! i) \<le> pt_time (points k ! Suc i)))"
    using trial stroke by blast
qed

lemma mono_real_of_nat: "mono (real :: nat \<Rightarrow> real)"
  by (simp add: mono_def)

theorem timestamps_ordered_and_nonnegative_witness:
  "mono (real :: nat \<Rightarrow> real) \<and>
   map (\<lambda>t. map (\<lambda>k. map pt_time (points k)) (strokes t))
     (sessionTrials (store_run
        [StartTrial, StartStroke ''pen'' ''#1a1a2e'' 4, AddStrokePoint 10 10 None,
         AddGazePoint (Num 3) (Num 4), AddStrokePoint 20 20 (Some (7 / 10)), EndStroke, EndTrial]
        (DataStore_new real))) = [[[3, 5]]]"
  using timestamps_ordered_and_nonnegative
    [OF mono_real_of_nat refl,
     of "[StartTrial, StartStroke ''pen'' ''#1a1a2e'' 4, AddStrokePoint 10 10 None,
         AddGazePoint (Num 3) (Num 4), AddStrokePoint 20 20 (Some (7 / 10)), EndStroke, EndTrial]"]
  by (simp add: mono_real_of_nat store_defs DataStore_new_def sessionTrials_def deref_trial_def)

section \<open>A stroke left open when the next trial starts\<close>







end
